theory Spec2Isabelle
  imports Main
begin

section \<open>JavaScript values\<close>

text \<open>
  The server computes with millisecond timestamps. A JavaScript number is modelled as an
  integer or \<open>NaN\<close>: \<open>undefined * 1000\<close> is \<open>NaN\<close>, arithmetic with \<open>NaN\<close> gives
  \<open>NaN\<close>, and every comparison with \<open>NaN\<close> is false. JavaScript computes with
  integers exactly as long as operands and result stay within \<open>2^53\<close> in absolute
  value, which every timestamp does; beyond it JavaScript rounds. The sums and
  products below are the exact ones, and a theorem that states a computed number
  states it within that range.
\<close>

datatype jsnum = Number int | NaN

fun jadd :: "jsnum \<Rightarrow> jsnum \<Rightarrow> jsnum" where
  "jadd (Number a) (Number b) = Number (a + b)"
| "jadd _ _ = NaN"

fun jsub :: "jsnum \<Rightarrow> jsnum \<Rightarrow> jsnum" where
  "jsub (Number a) (Number b) = Number (a - b)"
| "jsub _ _ = NaN"

fun jmul :: "jsnum \<Rightarrow> jsnum \<Rightarrow> jsnum" where
  "jmul (Number a) (Number b) = Number (a * b)"
| "jmul _ _ = NaN"

fun jgt :: "jsnum \<Rightarrow> jsnum \<Rightarrow> bool" where
  "jgt (Number a) (Number b) = (a > b)"
| "jgt _ _ = False"

text \<open>
  A token or URL field is a string, or absent (\<open>null\<close> or \<open>undefined\<close>). The tests
  \<open>if (x)\<close> and \<open>!x\<close> of the source read its truthiness: an absent value and the empty
  string are falsy.
\<close>

definition truthy :: "string option \<Rightarrow> bool" where
  "truthy v = (case v of None \<Rightarrow> False | Some s \<Rightarrow> s \<noteq> [])"

text \<open>Every failure of the source is a thrown \<open>Error\<close> or a rejected promise.\<close>

datatype error =
    NotAuthenticated      \<comment> \<open>\<open>new Error('Not authenticated')\<close>\<close>
  | TokenRefreshFailed    \<comment> \<open>\<open>new Error('Token refresh failed: ...')\<close>\<close>
  | NoRtspUrl             \<comment> \<open>\<open>new Error('No RTSP URL returned')\<close>\<close>
  | TypeError             \<comment> \<open>a property read on \<open>null\<close> or \<open>undefined\<close>\<close>
  | RequestError          \<comment> \<open>\<open>httpsRequest\<close> rejected (\<open>req.on('error', reject)\<close>)\<close>
  | SyntaxError           \<comment> \<open>\<open>JSON.parse\<close> of a request body failed\<close>

section \<open>The HTTPS helper\<close>

text \<open>
  \<open>httpsRequest\<close> resolves with \<open>{status, body}\<close>, where \<open>body\<close> is the parsed JSON
  or, when parsing fails, the raw text; it rejects on a request error. The body is
  \<open>BodyNull\<close> for JSON \<open>null\<close> (any property read on it throws), \<open>BodyOther\<close> for
  raw text or a JSON scalar (every property read gives \<open>undefined\<close>), and
  \<open>BodyObject\<close> for a JSON object. What the remote end answers is the environment's
  choice, so each request is modelled by an arrival: the milliseconds until the promise
  settles, and the reply.
\<close>

datatype 'a body = BodyNull | BodyOther | BodyObject 'a

datatype 'a reply = Failed | Answer nat "'a body"

type_synonym 'a arrival = "nat \<times> 'a reply"

section \<open>Token store\<close>

record token_store =
  access_token :: "string option"
  refresh_token :: "string option"
  expiry :: jsnum

text \<open>The fields of a token endpoint answer that the server reads.
  \<open>res_expires_in\<close> is the field as a number (\<open>NaN\<close> when it is absent).\<close>

record token_body =
  res_access_token :: "string option"
  res_refresh_token :: "string option"
  res_expires_in :: jsnum

text \<open>
  The module-level state of the server. \<open>tokens\<close> is \<open>None\<close> for \<open>null\<close>;
  \<open>clock\<close> is what \<open>Date.now()\<close> returns; \<open>token_requests\<close> counts the requests
  sent to the token endpoint.
\<close>

record broker =
  tokens :: "token_store option"
  clock :: int
  token_requests :: nat

definition initTokens :: "string option \<Rightarrow> token_store option" where
  "initTokens env_refresh_token =
     (if truthy env_refresh_token
      then Some \<lparr>access_token = None, refresh_token = env_refresh_token, expiry = Number 0\<rparr>
      else None)"

subsection \<open>refreshAccessToken\<close>

text \<open>
  An \<open>async\<close> function runs synchronously up to its first \<open>await\<close>. For
  \<open>refreshAccessToken\<close> that part reads \<open>tokens.refresh_token\<close> (a \<open>TypeError\<close> when
  \<open>tokens\<close> is \<open>null\<close>) and sends the request; the rest runs when the answer arrives.
\<close>

definition refreshAccessToken_send :: "('a broker_scheme) \<Rightarrow> error + ('a broker_scheme)" where
  "refreshAccessToken_send w =
     (case tokens w of
        None \<Rightarrow> Inl TypeError
      | Some ts \<Rightarrow> Inr (w\<lparr>token_requests := token_requests w + 1\<rparr>))"

text \<open>\<open>{ ...tokens, access_token: a, expiry: e }\<close>; spreading \<open>null\<close> adds no field.\<close>

definition spread_tokens :: "token_store option \<Rightarrow> string option \<Rightarrow> jsnum \<Rightarrow> token_store" where
  "spread_tokens t a e =
     (case t of
        None \<Rightarrow> \<lparr>access_token = a, refresh_token = None, expiry = e\<rparr>
      | Some ts \<Rightarrow> ts\<lparr>access_token := a, expiry := e\<rparr>)"

definition refreshAccessToken_receive ::
  "token_body arrival \<Rightarrow> ('a broker_scheme) \<Rightarrow> (error + unit) \<times> ('a broker_scheme)" where
  "refreshAccessToken_receive a w0 =
     (let w = w0\<lparr>clock := clock w0 + int (fst a)\<rparr> in
      case snd a of
        Failed \<Rightarrow> (Inl RequestError, w)
      | Answer st BodyNull \<Rightarrow> (Inl TypeError, w)
      | Answer st BodyOther \<Rightarrow> (Inl TokenRefreshFailed, w)
      | Answer st (BodyObject b) \<Rightarrow>
          if truthy (res_access_token b)
          then (Inr (),
                w\<lparr>tokens := Some (spread_tokens (tokens w) (res_access_token b)
                    (jadd (Number (clock w)) (jmul (res_expires_in b) (Number 1000))))\<rparr>)
          else (Inl TokenRefreshFailed, w))"

definition refreshAccessToken ::
  "token_body arrival \<Rightarrow> ('a broker_scheme) \<Rightarrow> (error + unit) \<times> ('a broker_scheme)" where
  "refreshAccessToken a w =
     (case refreshAccessToken_send w of
        Inl e \<Rightarrow> (Inl e, w)
      | Inr w' \<Rightarrow> refreshAccessToken_receive a w')"

subsection \<open>getValidToken\<close>

text \<open>
  A call of an \<open>async\<close> function is a task: settled with a result, or suspended at
  the \<open>await\<close> of the token request.
\<close>

datatype 'r task = Settled 'r | Awaiting

definition getValidToken_begin ::
  "('a broker_scheme) \<Rightarrow> (error + string option) task \<times> ('a broker_scheme)" where
  "getValidToken_begin w =
     (case tokens w of
        None \<Rightarrow> (Settled (Inl NotAuthenticated), w)
      | Some ts \<Rightarrow>
          if \<not> truthy (access_token ts)
             \<or> jgt (Number (clock w)) (jsub (expiry ts) (Number 60000))
          then (case refreshAccessToken_send w of
                  Inl e \<Rightarrow> (Settled (Inl e), w)
                | Inr w' \<Rightarrow> (Awaiting, w'))
          else (Settled (Inr (access_token ts)), w))"

definition getValidToken_resume ::
  "token_body arrival \<Rightarrow> ('a broker_scheme) \<Rightarrow> (error + string option) \<times> ('a broker_scheme)" where
  "getValidToken_resume a w =
     (case refreshAccessToken_receive a w of
        (Inl e, w') \<Rightarrow> (Inl e, w')
      | (Inr u, w') \<Rightarrow>
          (case tokens w' of
             None \<Rightarrow> (Inl TypeError, w')
           | Some ts \<Rightarrow> (Inr (access_token ts), w')))"

text \<open>One call run to completion, with no other task in between.\<close>

definition getValidToken ::
  "token_body arrival \<Rightarrow> ('a broker_scheme) \<Rightarrow> (error + string option) \<times> ('a broker_scheme)" where
  "getValidToken a w =
     (case getValidToken_begin w of
        (Settled r, w') \<Rightarrow> (r, w')
      | (Awaiting, w') \<Rightarrow> getValidToken_resume a w')"

section \<open>Slot orchestrator\<close>

subsection \<open>Relay processes\<close>

text \<open>
  A \<open>ChildProcess\<close> object is identified by its position in the list of all processes
  spawned so far, so a new one is a different object from every earlier one.
  \<open>observer_slot\<close> is the \<open>slotId\<close> that the exit observer closes over; \<open>killed\<close> says
  that \<open>kill('SIGKILL')\<close> delivered the signal; \<open>exited\<close> that the \<open>exit\<close> event has been
  emitted. Launching \<open>ffmpeg\<close> is taken to succeed.
\<close>

record child =
  input_url :: string
  output_dir :: string
  observer_slot :: string
  killed :: bool
  exited :: bool


definition spawn_ffmpeg :: "string \<Rightarrow> string \<Rightarrow> string \<Rightarrow> child list \<Rightarrow> nat \<times> child list" where
  "spawn_ffmpeg slotId d url ps =
     (length ps,
      ps @ [\<lparr>input_url = url, output_dir = d, observer_slot = slotId,
             killed = False, exited = False\<rparr>])"

text \<open>\<open>process.kill('SIGKILL')\<close>: no signal is sent to a process that has exited.\<close>

definition kill :: "nat \<Rightarrow> child list \<Rightarrow> child list" where
  "kill p ps =
     (if p < length ps \<and> \<not> exited (ps ! p) then ps[p := (ps ! p)\<lparr>killed := True\<rparr>] else ps)"

subsection \<open>The slot table\<close>

record slot =
  process :: nat
  dir :: string
  rtspUrl :: string
  startedAt :: int

text \<open>
  \<open>hlsStreams\<close> is a plain object \<open>{}\<close> indexed by the slot id. Its own properties are
  the map \<open>own\<close>. The key \<open>__proto__\<close> is not a property of the object itself: unless
  the object has an own property of that name, reading it returns the object's
  prototype, assigning an object to it replaces the prototype, and \<open>delete\<close> removes
  own properties only. \<open>proto\<close> is \<open>None\<close> while the prototype is \<open>Object.prototype\<close>,
  and the slot record that an assignment installed otherwise.

  A key that resolves to an inherited value which is no slot record (\<open>constructor\<close>,
  \<open>toString\<close>, ...) is truthy, but its \<open>.process\<close> is \<open>undefined\<close>: in \<open>stopHls\<close>
  the \<open>kill\<close> throws inside \<open>try\<close> and \<open>delete\<close> finds no own property, and in the
  exit observer the comparison is false. Such a key behaves as one with no entry, and
  \<open>lookup\<close> returns \<open>None\<close> for it.
\<close>

record slot_table =
  own :: "string \<rightharpoonup> slot"
  proto :: "slot option"

definition lookup :: "slot_table \<Rightarrow> string \<Rightarrow> slot option" where
  "lookup t k =
     (case own t k of
        Some e \<Rightarrow> Some e
      | None \<Rightarrow> if k = ''__proto__'' then proto t else None)"

definition assign :: "slot_table \<Rightarrow> string \<Rightarrow> slot \<Rightarrow> slot_table" where
  "assign t k e =
     (if k = ''__proto__'' \<and> own t k = None
      then t\<lparr>proto := Some e\<rparr>
      else t\<lparr>own := (own t)(k \<mapsto> e)\<rparr>)"

definition delete_key :: "slot_table \<Rightarrow> string \<Rightarrow> slot_table" where
  "delete_key t k = t\<lparr>own := (own t)(k := None)\<rparr>"

definition empty_table :: slot_table where
  "empty_table = \<lparr>own = Map.empty, proto = None\<rparr>"

subsection \<open>Paths\<close>

text \<open>
  \<open>path.join(a, b)\<close> for an absolute \<open>a\<close> and a non-empty \<open>b\<close>, as the server
  calls it: the two are joined by a separator and the result is normalised. Empty
  segments and \<open>.\<close> are dropped, \<open>..\<close> removes the segment before it (at the root it
  is dropped), and a trailing separator is kept.
\<close>

fun split_slash :: "string \<Rightarrow> string list" where
  "split_slash [] = [[]]"
| "split_slash (c # cs) =
     (if c = CHR ''/'' then [] # split_slash cs
      else (case split_slash cs of
              [] \<Rightarrow> [[c]]
            | s # ss \<Rightarrow> (c # s) # ss))"

fun normalize_segments :: "string list \<Rightarrow> string list \<Rightarrow> string list" where
  "normalize_segments acc [] = rev acc"
| "normalize_segments acc (s # ss) =
     (if s = [] \<or> s = ''.'' then normalize_segments acc ss
      else if s = ''..'' then normalize_segments (tl acc) ss
      else normalize_segments (s # acc) ss)"

fun join_segments :: "string list \<Rightarrow> string" where
  "join_segments [] = []"
| "join_segments (s # ss) = CHR ''/'' # s @ join_segments ss"

text \<open>The directories an absolute path names, from the root down.\<close>

definition path_segments :: "string \<Rightarrow> string list" where
  "path_segments p = normalize_segments [] (split_slash p)"

definition path_join :: "string \<Rightarrow> string \<Rightarrow> string" where
  "path_join a b =
     (let p = a @ ''/'' @ b in
      if path_segments p = [] then ''/''
      else join_segments (path_segments p) @ (if last p = CHR ''/'' then ''/'' else []))"

definition os_tmpdir :: string where
  "os_tmpdir = ''/tmp''"

definition getHlsDir :: "string \<Rightarrow> string" where
  "getHlsDir slotId = path_join os_tmpdir (''hls_'' @ slotId)"

subsection \<open>Staging directories\<close>

text \<open>
  The file system maps the path of each directory to its listing: the names in it, in
  the order \<open>readdirSync\<close> returns them, each a regular file or a subdirectory. A
  regular file is there when the listing of its directory says so.
\<close>

datatype kind = RegularFile | SubDirectory

type_synonym listing = "(string \<times> kind) list"

type_synonym filesystem = "string list \<rightharpoonup> listing"

definition existsSync :: "string \<Rightarrow> filesystem \<Rightarrow> bool" where
  "existsSync p f =
     (f (path_segments p) \<noteq> None
      \<or> (path_segments p \<noteq> [] \<and> last p \<noteq> CHR ''/''
         \<and> (case f (butlast (path_segments p)) of
               None \<Rightarrow> False
             | Some es \<Rightarrow> (last (path_segments p), RegularFile) \<in> set es)))"

text \<open>
  \<open>mkdirSync(p, { recursive: true })\<close> makes every directory on the way to \<open>p\<close> that
  is not there, and each new directory appears in the listing of the one above it.
  Where \<open>readdirSync\<close> lists a new name is the file system's choice; here it comes
  last. The call is taken to succeed. In the code it throws when the path is no valid
  name or a regular file is in the way, and the throw, which is outside the \<open>try\<close>,
  ends \<open>startHls\<close> before anything is spawned or registered. The model has no such
  throw: what it says about a start holds for the starts whose \<open>mkdirSync\<close> returns.
\<close>

definition add_entry :: "string list \<Rightarrow> string \<Rightarrow> kind \<Rightarrow> filesystem \<Rightarrow> filesystem" where
  "add_entry d name k f =
     (case f d of
        None \<Rightarrow> f
      | Some es \<Rightarrow> if name \<in> fst ` set es then f else f(d \<mapsto> es @ [(name, k)]))"

fun mkdirs :: "string list \<Rightarrow> string list \<Rightarrow> filesystem \<Rightarrow> filesystem" where
  "mkdirs d [] f = f"
| "mkdirs d (s # ss) f =
     mkdirs (d @ [s]) ss
       (if f (d @ [s]) = None then (add_entry d s SubDirectory f)(d @ [s] \<mapsto> []) else f)"

definition mkdirSync_recursive :: "string \<Rightarrow> filesystem \<Rightarrow> filesystem" where
  "mkdirSync_recursive p f = mkdirs [] (path_segments p) f"

text \<open>\<open>unlinkSync\<close> removes a regular file and throws on anything else; removing
  a regular file is taken to succeed.\<close>

definition unlinkSync :: "string \<Rightarrow> listing \<Rightarrow> listing option" where
  "unlinkSync f es =
     (if (f, RegularFile) \<in> set es then Some (filter (\<lambda>e. fst e \<noteq> f) es) else None)"

text \<open>\<open>names.forEach(f => fs.unlinkSync(...))\<close> inside \<open>try { } catch {}\<close>: the first
  throw ends the loop and is swallowed.\<close>

fun forEach_unlink :: "string list \<Rightarrow> listing \<Rightarrow> listing" where
  "forEach_unlink [] es = es"
| "forEach_unlink (f # names) es =
     (case unlinkSync f es of
        None \<Rightarrow> es
      | Some es' \<Rightarrow> forEach_unlink names es')"

text \<open>Line 65 of \<open>startHls\<close>; \<open>readdirSync\<close> throws inside the \<open>try\<close> when the path
  is no directory.\<close>

definition clearDir :: "string \<Rightarrow> filesystem \<Rightarrow> filesystem" where
  "clearDir p f =
     (case f (path_segments p) of
        None \<Rightarrow> f
      | Some es \<Rightarrow> f(path_segments p \<mapsto> forEach_unlink (map fst es) es))"

text \<open>Lines 64 and 65 of \<open>startHls\<close>.\<close>

definition prepareDir :: "string \<Rightarrow> filesystem \<Rightarrow> filesystem" where
  "prepareDir p f = clearDir p (if existsSync p f then f else mkdirSync_recursive p f)"

text \<open>The file system of the container at server start: the root and \<open>/tmp\<close>.\<close>

definition initial_fs :: filesystem where
  "initial_fs = [[] \<mapsto> [(''tmp'', SubDirectory)], [''tmp''] \<mapsto> []]"

subsection \<open>The server state, startHls and stopHls\<close>

record world = broker +
  device_requests :: nat
  hlsStreams :: slot_table
  procs :: "child list"
  fs :: filesystem

definition stopHls :: "string \<Rightarrow> world \<Rightarrow> world" where
  "stopHls slotId w =
     (case lookup (hlsStreams w) slotId of
        None \<Rightarrow> w
      | Some e \<Rightarrow>
          w\<lparr>procs := kill (process e) (procs w),
            hlsStreams := delete_key (hlsStreams w) slotId\<rparr>)"

definition startHls :: "string \<Rightarrow> string \<Rightarrow> world \<Rightarrow> world" where
  "startHls slotId url w0 =
     (let w1 = stopHls slotId w0;
          d = getHlsDir slotId;
          w2 = w1\<lparr>fs := prepareDir d (fs w1)\<rparr>;
          (p, ps) = spawn_ffmpeg slotId d url (procs w2);
          w3 = w2\<lparr>procs := ps\<rparr>
      in w3\<lparr>hlsStreams := assign (hlsStreams w3) slotId
              \<lparr>process = p, dir = d, rtspUrl = url, startedAt = clock w3\<rparr>\<rparr>)"

text \<open>
  The \<open>exit\<close> event of process \<open>p\<close>, emitted once: its observer deletes the entry of
  the slot id it closed over when that entry's process is \<open>p\<close>. The exit code is only
  logged.
\<close>

definition on_exit :: "nat \<Rightarrow> world \<Rightarrow> world" where
  "on_exit p w =
     (if p < length (procs w) \<and> \<not> exited (procs w ! p)
      then
        (let w1 = w\<lparr>procs := (procs w)[p := (procs w ! p)\<lparr>exited := True\<rparr>]\<rparr>;
             k = observer_slot (procs w ! p)
         in case lookup (hlsStreams w1) k of
              None \<Rightarrow> w1
            | Some e \<Rightarrow>
                if process e = p
                then w1\<lparr>hlsStreams := delete_key (hlsStreams w1) k\<rparr>
                else w1)
      else w)"


text \<open>The orchestrator's history: calls of \<open>startHls\<close> and \<open>stopHls\<close>, exits of relay
  processes and the passing of time, one at a time, from the state at server start.\<close>

datatype event = Start string string | Stop string | Exit nat | Tick nat

fun step :: "world \<Rightarrow> event \<Rightarrow> world" where
  "step w (Start slotId url) = startHls slotId url w"
| "step w (Stop slotId) = stopHls slotId w"
| "step w (Exit p) = on_exit p w"
| "step w (Tick d) = w\<lparr>clock := clock w + int d\<rparr>"

definition run :: "world \<Rightarrow> event list \<Rightarrow> world" where
  "run w evs = foldl step w evs"

definition boot :: "string option \<Rightarrow> int \<Rightarrow> world" where
  "boot env_refresh_token t0 =
     \<lparr>tokens = initTokens env_refresh_token, clock = t0, token_requests = 0,
      device_requests = 0, hlsStreams = empty_table, procs = [], fs = initial_fs\<rparr>"

section \<open>Stream grants and the request handlers\<close>

text \<open>
  The fields of \<open>res.body.results\<close> that the server reads. \<open>streamUrls_rtspUrl\<close> is
  \<open>results.streamUrls?.rtspUrl\<close>: absent when \<open>streamUrls\<close> or its \<open>rtspUrl\<close> is.
\<close>

record stream_results =
  streamUrls_rtspUrl :: "string option"
  streamExtensionToken :: "string option"
  expiresAt :: "string option"

record device_body =
  results :: "stream_results option"

text \<open>
  \<open>generateStream\<close> gets a bearer token, sends the command and returns
  \<open>res.body.results\<close>, whatever the status of the answer. The token arrival is
  consumed only when \<open>getValidToken\<close> refreshes.
\<close>

definition generateStream ::
  "string \<Rightarrow> token_body arrival \<Rightarrow> device_body arrival \<Rightarrow> world
     \<Rightarrow> (error + stream_results option) \<times> world" where
  "generateStream deviceId ta ga w =
     (case getValidToken ta w of
        (Inl e, w1) \<Rightarrow> (Inl e, w1)
      | (Inr token, w1) \<Rightarrow>
          (let w2 = w1\<lparr>clock := clock w1 + int (fst ga),
                       device_requests := device_requests w1 + 1\<rparr> in
           case snd ga of
             Failed \<Rightarrow> (Inl RequestError, w2)
           | Answer st BodyNull \<Rightarrow> (Inl TypeError, w2)
           | Answer st BodyOther \<Rightarrow> (Inr None, w2)
           | Answer st (BodyObject b) \<Rightarrow> (Inr (results b), w2)))"

text \<open>
  Requesting a grant is \<open>generateStream\<close> followed by the handler's test
  \<open>if (!stream?.streamUrls?.rtspUrl) throw new Error('No RTSP URL returned')\<close>
  (lines 307 and 308). A grant is the feed URL with the results it came in.
\<close>

definition requestGrant ::
  "string \<Rightarrow> token_body arrival \<Rightarrow> device_body arrival \<Rightarrow> world
     \<Rightarrow> (error + string \<times> stream_results) \<times> world" where
  "requestGrant deviceId ta ga w =
     (case generateStream deviceId ta ga w of
        (Inl e, w1) \<Rightarrow> (Inl e, w1)
      | (Inr None, w1) \<Rightarrow> (Inl NoRtspUrl, w1)
      | (Inr (Some r), w1) \<Rightarrow>
          (case streamUrls_rtspUrl r of
             None \<Rightarrow> (Inl NoRtspUrl, w1)
           | Some u \<Rightarrow> if u = [] then (Inl NoRtspUrl, w1) else (Inr (u, r), w1)))"

datatype payload =
    StreamStarted string "string option" "string option"
  | Stopped
  | ErrorMessage error

text \<open>
  The handler of \<open>POST /api/stream\<close>. The request is \<open>None\<close> when \<open>JSON.parse\<close> or
  the destructuring of its result throws, and the pair \<open>(deviceId, slotId)\<close> otherwise.
  Every throw inside \<open>try\<close> is answered with status 500.
\<close>

definition api_stream ::
  "(string \<times> string) option \<Rightarrow> token_body arrival \<Rightarrow> device_body arrival \<Rightarrow> world
     \<Rightarrow> (nat \<times> payload) \<times> world" where
  "api_stream req ta ga w =
     (case req of
        None \<Rightarrow> ((500, ErrorMessage SyntaxError), w)
      | Some (deviceId, slotId) \<Rightarrow>
          (case requestGrant deviceId ta ga w of
             (Inl e, w1) \<Rightarrow> ((500, ErrorMessage e), w1)
           | (Inr (u, r), w1) \<Rightarrow>
               ((200, StreamStarted (''/hls/'' @ slotId @ ''/index.m3u8'')
                        (streamExtensionToken r) (expiresAt r)),
                startHls slotId u w1)))"

text \<open>The handler of \<open>POST /api/stop\<close>.\<close>

definition api_stop :: "string option \<Rightarrow> world \<Rightarrow> (nat \<times> payload) \<times> world" where
  "api_stop req w =
     (case req of
        None \<Rightarrow> ((500, ErrorMessage SyntaxError), w)
      | Some slotId \<Rightarrow> ((200, Stopped), stopHls slotId w))"

subsection \<open>Overlapping calls of getValidToken\<close>




section \<open>Observations on a state\<close>






section \<open>Example states and answers\<close>

text \<open>A server with the given token store at time \<open>now\<close>, no slot and no file.\<close>

definition world_at :: "token_store option \<Rightarrow> int \<Rightarrow> world" where
  "world_at ts now =
     \<lparr>tokens = ts, clock = now, token_requests = 0, device_requests = 0,
      hlsStreams = empty_table, procs = [], fs = initial_fs\<rparr>"

definition store_expiring :: "int \<Rightarrow> token_store" where
  "store_expiring e =
     \<lparr>access_token = Some ''tok'', refresh_token = Some ''r1'', expiry = Number e\<rparr>"

text \<open>A token endpoint answer with status \<open>st\<close> that carries access token \<open>t\<close>, a
  new refresh token and a lifetime of an hour; and an error answer.\<close>

definition token_answer :: "nat \<Rightarrow> string \<Rightarrow> token_body arrival" where
  "token_answer st t =
     (20, Answer st (BodyObject \<lparr>res_access_token = Some t, res_refresh_token = Some ''r2'',
                                 res_expires_in = Number 3600\<rparr>))"

definition error_answer :: "token_body arrival" where
  "error_answer =
     (20, Answer 400 (BodyObject \<lparr>res_access_token = None, res_refresh_token = None,
                                  res_expires_in = NaN\<rparr>))"

text \<open>A device API answer with status \<open>st\<close> whose results hold the feed URL \<open>u\<close>;
  and an error answer, which has no results.\<close>

definition grant_answer :: "nat \<Rightarrow> string option \<Rightarrow> device_body arrival" where
  "grant_answer st u =
     (35, Answer st (BodyObject \<lparr>results = Some \<lparr>streamUrls_rtspUrl = u,
        streamExtensionToken = Some ''ext'', expiresAt = Some ''2026-01-01T00:05:00Z''\<rparr>\<rparr>))"

definition denied_answer :: "device_body arrival" where
  "denied_answer = (35, Answer 403 (BodyObject \<lparr>results = None\<rparr>))"


section \<open>The credential broker\<close>

lemmas broker_defs =
  refreshAccessToken_def refreshAccessToken_send_def refreshAccessToken_receive_def
  getValidToken_def getValidToken_begin_def getValidToken_resume_def
  spread_tokens_def truthy_def Let_def

lemmas example_defs =
  world_at_def store_expiring_def token_answer_def error_answer_def
  grant_answer_def denied_answer_def

subsection \<open>A failed refresh\<close>

text \<open>
  Claim C10. When a refresh attempt fails, the token store is exactly what it was
  before the attempt: access token, refresh token and expiry are unchanged. This holds
  for every way \<open>refreshAccessToken\<close> can fail: an answer without an access token, a
  body that is no object, a request error.
\<close>

theorem refresh_failure_keeps_tokens:
  "fst (refreshAccessToken a w) = Inl e \<Longrightarrow> tokens (snd (refreshAccessToken a w)) = tokens w"
  by (auto simp: refreshAccessToken_def refreshAccessToken_send_def
        refreshAccessToken_receive_def Let_def
        split: option.splits sum.splits reply.splits body.splits if_splits)

text \<open>An error answer of the token endpoint: the refresh fails and the store stays.\<close>

theorem refresh_failure_keeps_tokens_witness:
  "fst (refreshAccessToken error_answer (world_at (Some (store_expiring 160000)) 100000))
     = Inl TokenRefreshFailed
   \<and> tokens (snd (refreshAccessToken error_answer
                    (world_at (Some (store_expiring 160000)) 100000)))
     = Some (store_expiring 160000)"
proof -
  have f: "fst (refreshAccessToken error_answer (world_at (Some (store_expiring 160000)) 100000))
             = Inl TokenRefreshFailed"
    by (simp add: broker_defs example_defs)
  from refresh_failure_keeps_tokens [OF f] f show ?thesis
    by (simp add: world_at_def)
qed

subsection \<open>What a refresh does\<close>

text \<open>
  Claim C3, as the code has it. With a token store present, every call of
  \<open>refreshAccessToken\<close> sends exactly one request to the token endpoint and none
  after its answer. It succeeds exactly when the answer's body is a JSON object with a
  non-empty access token, whatever the status of the answer. It then replaces the
  access token by the answer's and the expiry in one assignment and keeps the stored
  refresh token, also when the answer brings a new one. The new expiry is \<open>NaN\<close>
  when the answer has no \<open>expires_in\<close> and the time of the answer plus
  \<open>expires_in * 1000\<close> when it has one, which is stated while these numbers stay
  within \<open>2^53\<close>. Otherwise the call fails and the store is what it was: with the
  error \<open>Token refresh failed\<close> when the body is no object or has no non-empty
  access token, with a \<open>TypeError\<close> when the body is \<open>null\<close>, with the error of the
  request when the request fails.
\<close>

theorem refresh_outcome:
  assumes "tokens w = Some ts"
  shows "((\<exists>u. fst (refreshAccessToken (d, r) w) = Inr u)
            \<longleftrightarrow> (\<exists>st b. r = Answer st (BodyObject b) \<and> truthy (res_access_token b)))
       \<and> token_requests (snd (refreshAccessToken (d, r) w)) = token_requests w + 1
       \<and> clock (snd (refreshAccessToken (d, r) w)) = clock w + int d
       \<and> (\<forall>st b. r = Answer st (BodyObject b) \<and> truthy (res_access_token b) \<longrightarrow>
            (\<exists>e'. tokens (snd (refreshAccessToken (d, r) w))
                     = Some (ts\<lparr>access_token := res_access_token b, expiry := e'\<rparr>)
                 \<and> (res_expires_in b = NaN \<longrightarrow> e' = NaN)
                 \<and> (\<forall>x. res_expires_in b = Number x \<and> \<bar>x * 1000\<bar> \<le> 2 ^ 53
                        \<and> \<bar>clock w + int d\<bar> \<le> 2 ^ 53
                        \<and> \<bar>clock w + int d + x * 1000\<bar> \<le> 2 ^ 53
                      \<longrightarrow> e' = Number (clock w + int d + x * 1000))))
       \<and> (r = Failed \<longrightarrow> fst (refreshAccessToken (d, r) w) = Inl RequestError)
       \<and> (\<forall>st. r = Answer st BodyNull
            \<longrightarrow> fst (refreshAccessToken (d, r) w) = Inl TypeError)
       \<and> (\<forall>st. r = Answer st BodyOther
            \<longrightarrow> fst (refreshAccessToken (d, r) w) = Inl TokenRefreshFailed)
       \<and> (\<forall>st b. r = Answer st (BodyObject b) \<and> \<not> truthy (res_access_token b)
            \<longrightarrow> fst (refreshAccessToken (d, r) w) = Inl TokenRefreshFailed)
       \<and> (\<forall>e. fst (refreshAccessToken (d, r) w) = Inl e
            \<longrightarrow> tokens (snd (refreshAccessToken (d, r) w)) = tokens w)"
proof (cases r)
  case Failed
  with assms show ?thesis
    by (simp add: refreshAccessToken_def refreshAccessToken_send_def
        refreshAccessToken_receive_def Let_def)
next
  case (Answer st bd)
  show ?thesis
  proof (cases bd)
    case BodyNull
    with assms Answer show ?thesis
      by (simp add: refreshAccessToken_def refreshAccessToken_send_def
          refreshAccessToken_receive_def Let_def)
  next
    case BodyOther
    with assms Answer show ?thesis
      by (simp add: refreshAccessToken_def refreshAccessToken_send_def
          refreshAccessToken_receive_def Let_def)
  next
    case (BodyObject b)
    show ?thesis
    proof (cases "truthy (res_access_token b)")
      case False
      with assms Answer BodyObject show ?thesis
        by (simp add: refreshAccessToken_def refreshAccessToken_send_def
            refreshAccessToken_receive_def Let_def)
    next
      case True
      have "tokens (snd (refreshAccessToken (d, r) w))
              = Some (ts\<lparr>access_token := res_access_token b,
                   expiry := jadd (Number (clock w + int d))
                               (jmul (res_expires_in b) (Number 1000))\<rparr>)"
        using assms Answer BodyObject True
        by (simp add: refreshAccessToken_def refreshAccessToken_send_def
            refreshAccessToken_receive_def Let_def spread_tokens_def)
      moreover have "res_expires_in b = NaN
          \<longrightarrow> jadd (Number (clock w + int d)) (jmul (res_expires_in b) (Number 1000)) = NaN"
        by simp
      moreover have "\<forall>x. res_expires_in b = Number x
          \<longrightarrow> jadd (Number (clock w + int d)) (jmul (res_expires_in b) (Number 1000))
              = Number (clock w + int d + x * 1000)"
        by simp
      ultimately have e: "\<exists>e'. tokens (snd (refreshAccessToken (d, r) w))
                     = Some (ts\<lparr>access_token := res_access_token b, expiry := e'\<rparr>)
                 \<and> (res_expires_in b = NaN \<longrightarrow> e' = NaN)
                 \<and> (\<forall>x. res_expires_in b = Number x \<and> \<bar>x * 1000\<bar> \<le> 2 ^ 53
                        \<and> \<bar>clock w + int d\<bar> \<le> 2 ^ 53
                        \<and> \<bar>clock w + int d + x * 1000\<bar> \<le> 2 ^ 53
                      \<longrightarrow> e' = Number (clock w + int d + x * 1000))"
        by blast
      have rest: "fst (refreshAccessToken (d, r) w) = Inr ()"
          "token_requests (snd (refreshAccessToken (d, r) w)) = token_requests w + 1"
          "clock (snd (refreshAccessToken (d, r) w)) = clock w + int d"
        using assms Answer BodyObject True
        by (simp_all add: refreshAccessToken_def refreshAccessToken_send_def
            refreshAccessToken_receive_def Let_def)
      from e rest Answer BodyObject True show ?thesis
        by auto
    qed
  qed
qed

text \<open>A successful answer and an error answer at time 100000, each arriving after
  20 ms.\<close>

theorem refresh_outcome_witness:
  "tokens (snd (refreshAccessToken (token_answer 200 ''new'')
                  (world_at (Some (store_expiring 160000)) 100000)))
     = Some \<lparr>access_token = Some ''new'', refresh_token = Some ''r1'',
             expiry = Number 3700020\<rparr>
   \<and> token_requests (snd (refreshAccessToken (token_answer 200 ''new'')
                  (world_at (Some (store_expiring 160000)) 100000))) = 1
   \<and> fst (refreshAccessToken error_answer (world_at (Some (store_expiring 160000)) 100000))
       = Inl TokenRefreshFailed
   \<and> token_requests (snd (refreshAccessToken error_answer
          (world_at (Some (store_expiring 160000)) 100000))) = 1"
proof -
  let ?W = "world_at (Some (store_expiring 160000)) 100000"
  let ?b = "\<lparr>res_access_token = Some ''new'', res_refresh_token = Some ''r2'',
             res_expires_in = Number 3600\<rparr>"
  let ?n = "\<lparr>res_access_token = None, res_refresh_token = None, res_expires_in = NaN\<rparr>"
  have t: "tokens ?W = Some (store_expiring 160000)"
    by (simp add: world_at_def)
  have c: "clock ?W = 100000" and q: "token_requests ?W = 0"
    by (simp_all add: world_at_def)
  have y: "truthy (res_access_token ?b)" and n: "\<not> truthy (res_access_token ?n)"
    by (simp_all add: truthy_def)
  note ok = refresh_outcome [OF t, of 20 "Answer 200 (BodyObject ?b)"]
  note bad = refresh_outcome [OF t, of 20 "Answer 400 (BodyObject ?n)"]
  note k = ok [THEN conjunct2, THEN conjunct2, THEN conjunct2, THEN conjunct1,
      rule_format, of 200 ?b, OF conjI [OF refl y]]
  from k obtain e' where
    s: "tokens (snd (refreshAccessToken (20, Answer 200 (BodyObject ?b)) ?W))
          = Some ((store_expiring 160000)\<lparr>access_token := res_access_token ?b, expiry := e'\<rparr>)"
    and x: "\<forall>x. res_expires_in ?b = Number x \<and> \<bar>x * 1000\<bar> \<le> 2 ^ 53
              \<and> \<bar>clock ?W + int 20\<bar> \<le> 2 ^ 53 \<and> \<bar>clock ?W + int 20 + x * 1000\<bar> \<le> 2 ^ 53
            \<longrightarrow> e' = Number (clock ?W + int 20 + x * 1000)"
    by (elim exE conjE)
  have "e' = Number (clock ?W + int 20 + 3600 * 1000)"
    by (rule x [rule_format, of 3600]) (simp add: c)
  then have "e' = Number 3700020"
    by (simp add: c)
  with s have 1: "tokens (snd (refreshAccessToken (token_answer 200 ''new'') ?W))
     = Some \<lparr>access_token = Some ''new'', refresh_token = Some ''r1'',
             expiry = Number 3700020\<rparr>"
    by (simp add: token_answer_def store_expiring_def)
  from ok [THEN conjunct2, THEN conjunct1] q
  have 2: "token_requests (snd (refreshAccessToken (token_answer 200 ''new'') ?W)) = 1"
    by (simp add: token_answer_def)
  note f = bad [THEN conjunct2, THEN conjunct2, THEN conjunct2, THEN conjunct2, THEN conjunct2,
      THEN conjunct2, THEN conjunct2, THEN conjunct1, rule_format, of 400 ?n, OF conjI [OF refl n]]
  from f have 3: "fst (refreshAccessToken error_answer ?W) = Inl TokenRefreshFailed"
    by (simp add: error_answer_def)
  from bad [THEN conjunct2, THEN conjunct1] q
  have 4: "token_requests (snd (refreshAccessToken error_answer ?W)) = 1"
    by (simp add: error_answer_def)
  from 1 2 3 4 show ?thesis by simp
qed

text \<open>
  Claim C3 as the specification states it fails twice. An answer with status 400 that
  carries an access token makes the refresh succeed, and an answer that carries the
  new refresh token \<open>r2\<close> leaves the stored refresh token \<open>r1\<close> in place.
\<close>

theorem refresh_counterexample:
  "fst (refreshAccessToken (token_answer 400 ''new'')
          (world_at (Some (store_expiring 160000)) 100000)) = Inr ()
   \<and> snd (token_answer 200 ''new'')
       = Answer 200 (BodyObject \<lparr>res_access_token = Some ''new'',
           res_refresh_token = Some ''r2'', res_expires_in = Number 3600\<rparr>)
   \<and> tokens (snd (refreshAccessToken (token_answer 200 ''new'')
                    (world_at (Some (store_expiring 160000)) 100000)))
       = Some \<lparr>access_token = Some ''new'', refresh_token = Some ''r1'',
               expiry = Number 3700020\<rparr>"
  by (simp add: broker_defs example_defs)

subsection \<open>When getValidToken refreshes\<close>




subsection \<open>Calls that overlap\<close>









section \<open>The slot orchestrator\<close>

subsection \<open>The table, the processes and stopHls\<close>





lemma length_kill [simp]: "length (kill p ps) = length ps"
  by (simp add: kill_def)

lemma observer_slot_kill [simp]: "observer_slot (kill p ps ! q) = observer_slot (ps ! q)"
  by (cases "q = p") (auto simp: kill_def)


lemma length_procs_stopHls [simp]: "length (procs (stopHls k w)) = length (procs w)"
  by (simp add: stopHls_def split: option.splits)

lemma observer_slot_stopHls [simp]:
  "observer_slot (procs (stopHls k w) ! q) = observer_slot (procs w ! q)"
  by (simp add: stopHls_def split: option.splits)





lemma startHls_unfold:
  "startHls k url w =
     (stopHls k w)\<lparr>fs := prepareDir (getHlsDir k) (fs (stopHls k w)),
       procs := procs (stopHls k w) @ [\<lparr>input_url = url, output_dir = getHlsDir k,
           observer_slot = k, killed = False, exited = False\<rparr>],
       hlsStreams := assign (hlsStreams (stopHls k w)) k
          \<lparr>process = length (procs w), dir = getHlsDir k, rtspUrl = url, startedAt = clock w\<rparr>\<rparr>"
  by (simp add: startHls_def spawn_ffmpeg_def Let_def stopHls_def split: option.splits)













subsection \<open>Starting a slot twice\<close>


lemmas orchestrator_eval =
  run_def boot_def startHls_unfold stopHls_def on_exit_def lookup_def assign_def
  delete_key_def empty_table_def kill_def getHlsDir_def os_tmpdir_def
  path_join_def path_segments_def


subsection \<open>Stopping a slot\<close>

text \<open>
  For every slot id but \<open>__proto__\<close>, \<open>stopHls\<close> leaves no entry, a second
  \<open>stopHls\<close> changes nothing, and the handler of \<open>/api/stop\<close> answers 200 both
  times. When an entry is present its process is sent \<open>SIGKILL\<close>.
\<close>

lemma stopHls_absent: "lookup (hlsStreams w) k = None \<Longrightarrow> stopHls k w = w"
  by (simp add: stopHls_def)

lemma stopHls_removes_ordinary:
  assumes "k \<noteq> ''__proto__''"
  shows "lookup (hlsStreams (stopHls k w)) k = None"
    and "stopHls k (stopHls k w) = stopHls k w"
    and "fst (api_stop (Some k) w) = (200, Stopped)"
    and "fst (api_stop (Some k) (snd (api_stop (Some k) w))) = (200, Stopped)"
proof -
  show 1: "lookup (hlsStreams (stopHls k w)) k = None"
    using assms by (auto simp: stopHls_def lookup_def delete_key_def split: option.splits)
  then show "stopHls k (stopHls k w) = stopHls k w" by (rule stopHls_absent)
qed (simp_all add: api_stop_def)

lemma stopHls_signals:
  "lookup (hlsStreams w) k = Some e \<Longrightarrow> procs (stopHls k w) = kill (process e) (procs w)"
  by (simp add: stopHls_def)

text \<open>
  Claim C5 fails for the slot id \<open>__proto__\<close>. \<open>startHls\<close> stores the slot record
  as the prototype of \<open>hlsStreams\<close>; \<open>stopHls\<close> finds it and kills its process,
  but \<open>delete\<close> removes own properties only, so the record is still what
  \<open>hlsStreams['__proto__']\<close> returns after the stop.
\<close>

theorem stop_proto_keeps_entry:
  "lookup (hlsStreams (stopHls ''__proto__'' (startHls ''__proto__'' ''rtsp://cam/live'' (boot None 0))))
       ''__proto__''
     = Some \<lparr>process = 0, dir = ''/tmp/hls___proto__'', rtspUrl = ''rtsp://cam/live'', startedAt = 0\<rparr>
   \<and> procs (stopHls ''__proto__'' (startHls ''__proto__'' ''rtsp://cam/live'' (boot None 0)))
     = [\<lparr>input_url = ''rtsp://cam/live'', output_dir = ''/tmp/hls___proto__'',
         observer_slot = ''__proto__'', killed = True, exited = False\<rparr>]"
  by (simp add: orchestrator_eval)

subsection \<open>The exit observer\<close>

text \<open>
  For every slot id but \<open>__proto__\<close>, the exit observer of process \<open>p\<close> removes the
  entry of its slot id when that entry holds \<open>p\<close>, and leaves the table as it is
  otherwise; it spawns nothing.
\<close>

lemma exit_observer_ordinary:
  assumes "p < length (procs w)" "\<not> exited (procs w ! p)"
    and "observer_slot (procs w ! p) = k" "k \<noteq> ''__proto__''"
  shows "(\<exists>e. lookup (hlsStreams w) k = Some e \<and> process e = p)
           \<longrightarrow> lookup (hlsStreams (on_exit p w)) k = None"
    and "\<not> (\<exists>e. lookup (hlsStreams w) k = Some e \<and> process e = p)
           \<longrightarrow> hlsStreams (on_exit p w) = hlsStreams w"
    and "length (procs (on_exit p w)) = length (procs w)"
  using assms
  by (auto simp: on_exit_def Let_def lookup_def delete_key_def split: option.splits)

text \<open>
  Claim C7 fails for the slot id \<open>__proto__\<close>. The process registered under it
  exits, the observer finds its own process in the entry and runs \<open>delete\<close>, and the
  entry is still there, now holding a process that has exited.
\<close>

theorem exit_proto_keeps_entry:
  "lookup (hlsStreams (on_exit 0 (startHls ''__proto__'' ''rtsp://cam/live'' (boot None 0))))
       ''__proto__''
     = Some \<lparr>process = 0, dir = ''/tmp/hls___proto__'', rtspUrl = ''rtsp://cam/live'', startedAt = 0\<rparr>
   \<and> procs (on_exit 0 (startHls ''__proto__'' ''rtsp://cam/live'' (boot None 0)))
     = [\<lparr>input_url = ''rtsp://cam/live'', output_dir = ''/tmp/hls___proto__'',
         observer_slot = ''__proto__'', killed = False, exited = True\<rparr>]"
  by (simp add: orchestrator_eval)

subsection \<open>The staging directory\<close>

lemma forEach_unlink_regular:
  "distinct (map fst es) \<Longrightarrow> \<forall>e\<in>set es. snd e = RegularFile
     \<Longrightarrow> forEach_unlink (map fst es) es = []"
proof (induction es)
  case Nil
  then show ?case by simp
next
  case (Cons x es)
  obtain f where x: "x = (f, RegularFile)" using Cons.prems(2) by (cases x) simp
  from Cons.prems(1) x have "f \<notin> fst ` set es" by simp
  then have "filter (\<lambda>e. fst e \<noteq> f) es = es"
    by (intro filter_True) force
  with x have "unlinkSync f (x # es) = Some es" by (simp add: unlinkSync_def)
  with Cons x show ?case by simp
qed

lemma fs_stopHls [simp]: "fs (stopHls k w) = fs w"
  by (simp add: stopHls_def split: option.splits)

lemma fs_startHls: "fs (startHls k url w) = prepareDir (getHlsDir k) (fs w)"
  by (simp add: startHls_unfold)

text \<open>
  A staging directory that is there and lists regular files only is empty after
  \<open>startHls\<close>.
\<close>

lemma startHls_clears_regular_files:
  assumes "fs w (path_segments (getHlsDir A)) = Some es"
    and "distinct (map fst es)" and "\<forall>e\<in>set es. snd e = RegularFile"
  shows "fs (startHls A url w) (path_segments (getHlsDir A)) = Some []"
  using assms
  by (simp add: fs_startHls prepareDir_def existsSync_def clearDir_def forEach_unlink_regular)



section \<open>Stream grants\<close>

lemma getValidToken_frame:
  "hlsStreams (snd (getValidToken a w)) = hlsStreams w
   \<and> procs (snd (getValidToken a w)) = procs w
   \<and> fs (snd (getValidToken a w)) = fs w"
  by (auto simp: getValidToken_def getValidToken_begin_def getValidToken_resume_def
        refreshAccessToken_send_def refreshAccessToken_receive_def Let_def
        split: option.splits sum.splits reply.splits body.splits if_splits prod.splits)

lemma generateStream_frame:
  "hlsStreams (snd (generateStream d ta ga w)) = hlsStreams w
   \<and> procs (snd (generateStream d ta ga w)) = procs w
   \<and> fs (snd (generateStream d ta ga w)) = fs w"
proof (cases "getValidToken ta w")
  case (Pair r w1)
  with getValidToken_frame [of ta w] show ?thesis
    by (cases r; cases "snd ga")
       (auto simp: generateStream_def Let_def split: body.splits)
qed

lemma requestGrant_frame:
  "hlsStreams (snd (requestGrant d ta ga w)) = hlsStreams w
   \<and> procs (snd (requestGrant d ta ga w)) = procs w
   \<and> fs (snd (requestGrant d ta ga w)) = fs w"
proof (cases "generateStream d ta ga w")
  case (Pair r w1)
  with generateStream_frame [of d ta ga w] show ?thesis
    by (auto simp: requestGrant_def split: sum.splits option.splits)
qed

text \<open>
  Claim C8. When requesting the grant fails, for any reason (no bearer token, request
  error, an answer without a feed URL), the handler of \<open>/api/stream\<close> answers with
  status 500 and that error, and the slot table, the processes and the file system are
  what they were: no entry is registered, nothing is spawned.
\<close>

theorem failed_grant_starts_nothing:
  assumes "fst (requestGrant deviceId ta ga w) = Inl e"
  shows "fst (api_stream (Some (deviceId, slotId)) ta ga w) = (500, ErrorMessage e)
       \<and> hlsStreams (snd (api_stream (Some (deviceId, slotId)) ta ga w)) = hlsStreams w
       \<and> procs (snd (api_stream (Some (deviceId, slotId)) ta ga w)) = procs w
       \<and> fs (snd (api_stream (Some (deviceId, slotId)) ta ga w)) = fs w"
proof (cases "requestGrant deviceId ta ga w")
  case (Pair r w1)
  with assms requestGrant_frame [of deviceId ta ga w] show ?thesis
    by (simp add: api_stream_def)
qed

text \<open>The device API answers 403 without results.\<close>

theorem failed_grant_starts_nothing_witness:
  "fst (requestGrant ''dev'' (token_answer 200 ''new'') denied_answer
          (world_at (Some (store_expiring 3700000)) 100000)) = Inl NoRtspUrl
   \<and> fst (api_stream (Some (''dev'', ''0'')) (token_answer 200 ''new'') denied_answer
          (world_at (Some (store_expiring 3700000)) 100000)) = (500, ErrorMessage NoRtspUrl)
   \<and> procs (snd (api_stream (Some (''dev'', ''0'')) (token_answer 200 ''new'') denied_answer
          (world_at (Some (store_expiring 3700000)) 100000))) = []"
proof -
  have f: "fst (requestGrant ''dev'' (token_answer 200 ''new'') denied_answer
          (world_at (Some (store_expiring 3700000)) 100000)) = Inl NoRtspUrl"
    by (simp add: requestGrant_def generateStream_def broker_defs example_defs
        denied_answer_def)
  from failed_grant_starts_nothing [OF f, of "''0''"] f show ?thesis
    by (simp add: world_at_def)
qed

text \<open>
  Claim C9, as the code has it. Once the bearer token is there, requesting a grant
  succeeds exactly when the answer's body is a JSON object whose results hold a
  non-empty \<open>streamUrls.rtspUrl\<close>, whatever the status of the answer, and returns that
  URL with the results (extension token and expiry). An answer with no such URL, an
  error answer included, fails with the one error \<open>No RTSP URL returned\<close>. A request
  error and a \<open>null\<close> body fail with errors of their own.
\<close>

theorem requestGrant_outcome:
  assumes "fst (getValidToken ta w) = Inr tok"
  shows "((\<exists>g. fst (requestGrant deviceId ta ga w) = Inr g)
            \<longleftrightarrow> (\<exists>st b r. snd ga = Answer st (BodyObject b) \<and> results b = Some r
                    \<and> truthy (streamUrls_rtspUrl r)))
       \<and> (\<forall>st b r u. snd ga = Answer st (BodyObject b) \<and> results b = Some r
              \<and> streamUrls_rtspUrl r = Some u \<and> u \<noteq> []
            \<longrightarrow> fst (requestGrant deviceId ta ga w) = Inr (u, r))
       \<and> (fst (requestGrant deviceId ta ga w) = Inl NoRtspUrl
            \<longleftrightarrow> (\<exists>st. snd ga = Answer st BodyOther)
              \<or> (\<exists>st b. snd ga = Answer st (BodyObject b)
                    \<and> (case results b of None \<Rightarrow> True
                        | Some r \<Rightarrow> \<not> truthy (streamUrls_rtspUrl r))))
       \<and> (fst (requestGrant deviceId ta ga w) = Inl RequestError \<longleftrightarrow> snd ga = Failed)
       \<and> (fst (requestGrant deviceId ta ga w) = Inl TypeError
            \<longleftrightarrow> (\<exists>st. snd ga = Answer st BodyNull))"
proof (cases "getValidToken ta w")
  case (Pair r0 w1)
  with assms have g: "getValidToken ta w = (Inr tok, w1)" by simp
  show ?thesis
  proof (cases "snd ga")
    case Failed
    with g show ?thesis by (simp add: requestGrant_def generateStream_def Let_def)
  next
    case (Answer st bd)
    show ?thesis
    proof (cases bd)
      case BodyNull
      with g Answer show ?thesis by (simp add: requestGrant_def generateStream_def Let_def)
    next
      case BodyOther
      with g Answer show ?thesis by (simp add: requestGrant_def generateStream_def Let_def)
    next
      case (BodyObject b)
      with g Answer show ?thesis
        by (cases "results b"; cases "streamUrls_rtspUrl (the (results b))")
           (auto simp: requestGrant_def generateStream_def Let_def truthy_def)
    qed
  qed
qed

text \<open>A 200 answer with a feed URL, with a cached token that is still valid.\<close>

theorem requestGrant_outcome_witness:
  "fst (requestGrant ''dev'' (token_answer 200 ''new'') (grant_answer 200 (Some ''rtsp://cam/live''))
          (world_at (Some (store_expiring 3700000)) 100000))
     = Inr (''rtsp://cam/live'', \<lparr>streamUrls_rtspUrl = Some ''rtsp://cam/live'',
        streamExtensionToken = Some ''ext'', expiresAt = Some ''2026-01-01T00:05:00Z''\<rparr>)"
proof -
  have t: "fst (getValidToken (token_answer 200 ''new'') (world_at (Some (store_expiring 3700000)) 100000))
      = Inr (Some ''tok'')"
    by (simp add: broker_defs example_defs)
  from requestGrant_outcome [OF t, of "''dev''" "grant_answer 200 (Some ''rtsp://cam/live'')"]
  show ?thesis
    by (simp add: grant_answer_def)
qed

text \<open>
  Claim C9 as the specification states it fails on the status. An answer with status
  500 that holds a feed URL yields a grant, and an answer with status 403 fails with
  the same error as a 200 answer that lacks the URL.
\<close>

theorem requestGrant_status_counterexample:
  "fst (requestGrant ''dev'' (token_answer 200 ''new'') (grant_answer 500 (Some ''rtsp://cam/live''))
          (world_at (Some (store_expiring 3700000)) 100000))
     = Inr (''rtsp://cam/live'', \<lparr>streamUrls_rtspUrl = Some ''rtsp://cam/live'',
        streamExtensionToken = Some ''ext'', expiresAt = Some ''2026-01-01T00:05:00Z''\<rparr>)
   \<and> fst (requestGrant ''dev'' (token_answer 200 ''new'') denied_answer
          (world_at (Some (store_expiring 3700000)) 100000)) = Inl NoRtspUrl
   \<and> fst (requestGrant ''dev'' (token_answer 200 ''new'') (grant_answer 200 None)
          (world_at (Some (store_expiring 3700000)) 100000)) = Inl NoRtspUrl"
  by (simp add: requestGrant_def generateStream_def broker_defs example_defs
        denied_answer_def grant_answer_def)

end
